theory Spec2Isabelle
  imports Complex_Main "HOL-Library.Multiset" "HOL-Library.Product_Lexorder"
begin

section \<open>Values of the program\<close>

text \<open>
  The bot works on decoded JSON. A Python float is modelled by its rational value or one
  of the three special values. The conversion of an integer rounds as binary64 does; sums
  and quotients of floats are kept exact. A JSON object is an association list read in
  lookup order.
\<close>

datatype pyfloat = Fin rat | PosInf | NegInf | NaN

datatype pyval =
    PNone
  | PBool bool
  | PInt int
  | PFloat pyfloat
  | PStr string
  | PList "pyval list"
  | PDict "(string \<times> pyval) list"

datatype error = TypeError | AttributeError | ValueError | OverflowError | KeyError

text \<open>A \<open>datetime\<close>: the wall-clock reading in microseconds from a fixed origin and the
  UTC offset in seconds, \<open>None\<close> for a naive value.\<close>

record datetime =
  wall_us :: int
  tzinfo :: "int option"

text \<open>
  What the program takes from its libraries and its clock: \<open>float\<close> on a string,
  \<open>dateutil.parser.isoparse\<close> on a string (\<open>None\<close> where it raises \<open>ValueError\<close>), the
  reading of \<open>datetime.now(timezone.utc)\<close> in microseconds, \<open>format\<close> of a float under a
  format specification, and \<open>str\<close>.
\<close>

record env =
  str_to_float :: "string \<Rightarrow> pyfloat option"
  isoparse :: "string \<Rightarrow> datetime option"
  now_us :: int
  format_float :: "string \<Rightarrow> pyfloat \<Rightarrow> string"
  py_str :: "pyval \<Rightarrow> string"

section \<open>Configuration\<close>

definition MIN_LIQ_USD :: int where "MIN_LIQ_USD = 3000"
definition MIN_1H_TXNS :: int where "MIN_1H_TXNS = 20"
definition MAX_FDV_USD :: int where "MAX_FDV_USD = 20000000"
definition MAX_POOL_AGE_HOURS :: int where "MAX_POOL_AGE_HOURS = 48"

section \<open>Python primitives\<close>

fun truthy :: "pyval \<Rightarrow> bool" where
  "truthy PNone = False"
| "truthy (PBool b) = b"
| "truthy (PInt n) = (n \<noteq> 0)"
| "truthy (PFloat f) = (f \<noteq> Fin 0)"
| "truthy (PStr s) = (s \<noteq> [])"
| "truthy (PList xs) = (xs \<noteq> [])"
| "truthy (PDict kvs) = (kvs \<noteq> [])"

text \<open>
  \<open>float\<close> of an integer keeps the 53 leading bits of its magnitude, rounding what it drops
  to the nearest value and a tie to the even one, and raises \<open>OverflowError\<close> when the
  rounded magnitude needs more than 1024 bits.
\<close>

fun bit_length :: "nat \<Rightarrow> nat" where
  "bit_length n = (if n = 0 then 0 else Suc (bit_length (n div 2)))"

declare bit_length.simps [simp del]

definition round_half_even :: "nat \<Rightarrow> nat \<Rightarrow> nat" where
  "round_half_even a sh =
     (let q = a div 2 ^ sh; r = a mod 2 ^ sh
      in (if 2 ^ sh < 2 * r \<or> (2 * r = 2 ^ sh \<and> odd q) then q + 1 else q) * 2 ^ sh)"

definition nearest_double :: "nat \<Rightarrow> nat" where
  "nearest_double a = round_half_even a (bit_length a - 53)"

definition float_of_int :: "int \<Rightarrow> error + pyfloat" where
  "float_of_int n =
     (let r = nearest_double (nat \<bar>n\<bar>)
      in if 1024 < bit_length r then Inl OverflowError
         else Inr (Fin (of_int (sgn n * int r))))"

fun py_float :: "(string \<Rightarrow> pyfloat option) \<Rightarrow> pyval \<Rightarrow> error + pyfloat" where
  "py_float sf PNone = Inl TypeError"
| "py_float sf (PBool b) = Inr (Fin (if b then 1 else 0))"
| "py_float sf (PInt n) = float_of_int n"
| "py_float sf (PFloat f) = Inr f"
| "py_float sf (PStr s) = (case sf s of None \<Rightarrow> Inl ValueError | Some f \<Rightarrow> Inr f)"
| "py_float sf (PList xs) = Inl TypeError"
| "py_float sf (PDict kvs) = Inl TypeError"

definition ebind :: "error + 'a \<Rightarrow> ('a \<Rightarrow> error + 'b) \<Rightarrow> error + 'b" where
  "ebind m f = (case m of Inl e \<Rightarrow> Inl e | Inr v \<Rightarrow> f v)"

text \<open>\<open>d.get(k, default)\<close>: only an object has the method.\<close>

fun py_get :: "pyval \<Rightarrow> string \<Rightarrow> pyval \<Rightarrow> error + pyval" where
  "py_get (PDict kvs) k d = Inr (case map_of kvs k of None \<Rightarrow> d | Some v \<Rightarrow> v)"
| "py_get v k d = Inl AttributeError"

text \<open>\<open>d[k]\<close> with a string key.\<close>

fun py_index :: "pyval \<Rightarrow> string \<Rightarrow> error + pyval" where
  "py_index (PDict kvs) k = (case map_of kvs k of None \<Rightarrow> Inl KeyError | Some v \<Rightarrow> Inr v)"
| "py_index v k = Inl TypeError"

definition py_or :: "pyval \<Rightarrow> pyval \<Rightarrow> pyval" where
  "py_or a b = (if truthy a then a else b)"

text \<open>What a \<open>for\<close> loop runs over: the items of a list, the characters of a string, the
  keys of an object; nothing else iterates.\<close>

fun py_iter :: "pyval \<Rightarrow> error + pyval list" where
  "py_iter (PList xs) = Inr xs"
| "py_iter (PStr s) = Inr (map (\<lambda>c. PStr [c]) s)"
| "py_iter (PDict kvs) = Inr (map PStr (remdups (map fst kvs)))"
| "py_iter v = Inl TypeError"

fun float_lt :: "pyfloat \<Rightarrow> pyfloat \<Rightarrow> bool" where
  "float_lt NaN b = False"
| "float_lt a NaN = False"
| "float_lt (Fin a) (Fin b) = (a < b)"
| "float_lt (Fin a) PosInf = True"
| "float_lt NegInf (Fin b) = True"
| "float_lt NegInf PosInf = True"
| "float_lt a b = False"

definition float_eq :: "pyfloat \<Rightarrow> pyfloat \<Rightarrow> bool" where
  "float_eq a b = (a \<noteq> NaN \<and> a = b)"

definition float_le :: "pyfloat \<Rightarrow> pyfloat \<Rightarrow> bool" where
  "float_le a b = (float_lt a b \<or> float_eq a b)"

fun float_add :: "pyfloat \<Rightarrow> pyfloat \<Rightarrow> pyfloat" where
  "float_add NaN b = NaN"
| "float_add a NaN = NaN"
| "float_add (Fin a) (Fin b) = Fin (a + b)"
| "float_add PosInf NegInf = NaN"
| "float_add NegInf PosInf = NaN"
| "float_add (Fin a) b = b"
| "float_add a b = a"

text \<open>The number a value stands for in a comparison (exact, also between an integer and
  a float), and the integer a value is as an operand of \<open>+\<close>.\<close>

fun num_of :: "pyval \<Rightarrow> pyfloat option" where
  "num_of (PBool b) = Some (Fin (if b then 1 else 0))"
| "num_of (PInt n) = Some (Fin (of_int n))"
| "num_of (PFloat f) = Some f"
| "num_of v = None"

fun int_of :: "pyval \<Rightarrow> int option" where
  "int_of (PBool b) = Some (if b then 1 else 0)"
| "int_of (PInt n) = Some n"
| "int_of v = None"

fun float_operand :: "pyval \<Rightarrow> (error + pyfloat) option" where
  "float_operand (PBool b) = Some (Inr (Fin (if b then 1 else 0)))"
| "float_operand (PInt n) = Some (float_of_int n)"
| "float_operand (PFloat f) = Some (Inr f)"
| "float_operand v = None"

text \<open>\<open>a + b\<close>: integers (booleans among them) add exactly, a float operand converts the
  other one, strings and lists concatenate, anything else is a \<open>TypeError\<close>.\<close>

definition py_add :: "pyval \<Rightarrow> pyval \<Rightarrow> error + pyval" where
  "py_add a b =
     (case (int_of a, int_of b) of
        (Some x, Some y) \<Rightarrow> Inr (PInt (x + y))
      | _ \<Rightarrow>
        (case (a, b) of
           (PStr s, PStr t) \<Rightarrow> Inr (PStr (s @ t))
         | (PList xs, PList ys) \<Rightarrow> Inr (PList (xs @ ys))
         | _ \<Rightarrow>
           (case (float_operand a, float_operand b) of
              (Some fa, Some fb) \<Rightarrow>
                ebind fa (\<lambda>x. ebind fb (\<lambda>y. Inr (PFloat (float_add x y))))
            | _ \<Rightarrow> Inl TypeError)))"

text \<open>\<open>v >= k\<close> for an integer constant \<open>k\<close>.\<close>

definition py_ge_int :: "pyval \<Rightarrow> int \<Rightarrow> error + bool" where
  "py_ge_int v k =
     (case num_of v of None \<Rightarrow> Inl TypeError | Some f \<Rightarrow> Inr (float_le (Fin (of_int k)) f))"

definition nl :: string where
  "nl = [CHR 0x0A]"

definition bullet :: string where
  "bullet = [CHR 0xE2, CHR 0x80, CHR 0xA2]"

fun join :: "string \<Rightarrow> string list \<Rightarrow> string" where
  "join sep [] = []"
| "join sep [x] = x"
| "join sep (x # y # ys) = x @ sep @ join sep (y # ys)"

section \<open>Helper functions\<close>

definition usd_body :: "env \<Rightarrow> pyval \<Rightarrow> error + pyfloat" where
  "usd_body E x = (if truthy x then py_float (str_to_float E) x else Inr (Fin 0))"

definition usd :: "env \<Rightarrow> pyval \<Rightarrow> error + pyfloat" where
  "usd E x = (case usd_body E x of Inl e \<Rightarrow> Inr (Fin 0) | Inr v \<Rightarrow> Inr v)"

text \<open>\<open>dt.replace(tzinfo=timezone.utc)\<close> where \<open>dt.tzinfo is None\<close>.\<close>

definition assume_utc :: "datetime \<Rightarrow> datetime" where
  "assume_utc dt = (if tzinfo dt = None then dt\<lparr>tzinfo := Some 0\<rparr> else dt)"

text \<open>\<open>now - dt\<close> for the aware clock reading \<open>now\<close>, in microseconds: a naive \<open>dt\<close> cannot
  be subtracted from it.\<close>

definition aware_sub :: "int \<Rightarrow> datetime \<Rightarrow> error + int" where
  "aware_sub now dt =
     (case tzinfo dt of
        None \<Rightarrow> Inl TypeError
      | Some off \<Rightarrow> Inr (now - (wall_us dt - off * 1000000)))"

text \<open>\<open>total_seconds() / 3600.0\<close> of a difference in microseconds.\<close>

definition hours_of_us :: "int \<Rightarrow> pyfloat" where
  "hours_of_us d = Fin (of_int d / 1000000 / 3600)"

fun hours_since_body :: "env \<Rightarrow> pyval \<Rightarrow> error + pyfloat" where
  "hours_since_body E (PStr s) =
     (case isoparse E s of
        None \<Rightarrow> Inl ValueError
      | Some dt \<Rightarrow>
          ebind (aware_sub (now_us E) (assume_utc dt)) (\<lambda>d. Inr (hours_of_us d)))"
| "hours_since_body E v = Inl TypeError"

definition hours_since :: "env \<Rightarrow> pyval \<Rightarrow> error + pyfloat" where
  "hours_since E dt_iso =
     (case hours_since_body E dt_iso of Inl e \<Rightarrow> Inr PosInf | Inr v \<Rightarrow> Inr v)"

section \<open>The pool summariser and the eligibility filter\<close>

record metrics =
  fdv :: pyfloat
  liq :: pyfloat
  txs :: pyval
  age :: pyfloat

definition summary_text ::
  "env \<Rightarrow> pyval \<Rightarrow> pyval \<Rightarrow> pyval \<Rightarrow> pyfloat \<Rightarrow> pyfloat \<Rightarrow> pyfloat \<Rightarrow> pyval \<Rightarrow> pyval \<Rightarrow> pyval
     \<Rightarrow> pyfloat \<Rightarrow> pyval \<Rightarrow> string" where
  "summary_text E name base quote price vliq vfdv buys sells vtxs age_h url =
     bullet @ '' '' @ py_str E name @ '' ('' @ py_str E base @ '') / '' @ py_str E quote @ nl
     @ ''  Price: $'' @ format_float E '',.8f'' price @ nl
     @ ''  Liquidity: $'' @ format_float E '',.0f'' vliq
       @ '' | FDV: $'' @ format_float E '',.0f'' vfdv @ nl
     @ ''  1h: '' @ py_str E buys @ '' buys / '' @ py_str E sells
       @ '' sells (tx='' @ py_str E vtxs @ '')'' @ nl
     @ ''  Age: '' @ format_float E ''.1f'' age_h @ ''h'' @ nl
     @ ''  Chart: '' @ py_str E url"

definition summarize_pool :: "env \<Rightarrow> pyval \<Rightarrow> error + (string \<times> metrics)" where
  "summarize_pool E p =
     ebind (py_get p ''attributes'' (PDict [])) (\<lambda>attrs.
     ebind (ebind (py_get attrs ''fdv_usd'' PNone) (usd E)) (\<lambda>vfdv.
     ebind (ebind (py_get attrs ''reserve_in_usd'' PNone) (usd E)) (\<lambda>vliq.
     ebind (ebind (py_get attrs ''price_in_usd'' PNone) (usd E)) (\<lambda>price.
     ebind (py_get attrs ''buys_1h'' PNone) (\<lambda>b.
     ebind (py_get attrs ''sells_1h'' PNone) (\<lambda>s.
     ebind (py_add (py_or b (PInt 0)) (py_or s (PInt 0))) (\<lambda>vtxs.
     ebind (ebind (py_get attrs ''pool_created_at'' PNone) (hours_since E)) (\<lambda>age_h.
     ebind (py_get attrs ''base_token_symbol'' PNone) (\<lambda>base.
     ebind (py_get attrs ''quote_token_symbol'' PNone) (\<lambda>quote.
     ebind (py_get attrs ''url'' PNone) (\<lambda>url.
     ebind (py_get attrs ''base_token_name'' PNone) (\<lambda>n.
       Inr (summary_text E (py_or n base) base quote price vliq vfdv
              (py_or b (PInt 0)) (py_or s (PInt 0)) vtxs age_h url,
            \<lparr>fdv = vfdv, liq = vliq, txs = vtxs, age = age_h\<rparr>)))))))))))))"

text \<open>\<open>and\<close> stops at the first false operand, so a later comparison that would raise is
  not reached.\<close>

definition looks_like_memecoin :: "metrics \<Rightarrow> error + bool" where
  "looks_like_memecoin m =
     (if \<not> float_le (Fin (of_int MIN_LIQ_USD)) (liq m) then Inr False
      else ebind (py_ge_int (txs m) MIN_1H_TXNS) (\<lambda>enough.
        if \<not> enough then Inr False
        else if \<not> float_le (fdv m) (Fin (of_int MAX_FDV_USD)) then Inr False
        else Inr (float_le (age m) (Fin (of_int MAX_POOL_AGE_HOURS)))))"

section \<open>The scan\<close>

text \<open>
  The key of \<open>results.sort\<close> is the tuple \<open>(txs, liq)\<close>; tuples compare by their first
  unequal component. Every record the scan keeps has passed \<open>txs >= MIN_1H_TXNS\<close>, which
  raises unless \<open>txs\<close> is a number, so the comparison is modelled on numbers and answers
  \<open>TypeError\<close> elsewhere.
\<close>

definition sort_key :: "metrics \<times> string \<Rightarrow> pyval \<times> pyfloat" where
  "sort_key x = (txs (fst x), liq (fst x))"

definition key_lt :: "pyval \<times> pyfloat \<Rightarrow> pyval \<times> pyfloat \<Rightarrow> error + bool" where
  "key_lt k1 k2 =
     (case (num_of (fst k1), num_of (fst k2)) of
        (Some a, Some b) \<Rightarrow>
          Inr (if float_eq a b then float_lt (snd k1) (snd k2) else float_lt a b)
      | _ \<Rightarrow> Inl TypeError)"

text \<open>\<open>sort(..., reverse=True)\<close> is stable: descending keys, records with equal keys in
  their original order. It is modelled by insertion from the right.\<close>

fun insert_desc ::
  "metrics \<times> string \<Rightarrow> (metrics \<times> string) list \<Rightarrow> error + (metrics \<times> string) list" where
  "insert_desc x [] = Inr [x]"
| "insert_desc x (y # ys) =
     ebind (key_lt (sort_key x) (sort_key y)) (\<lambda>below.
       if below then ebind (insert_desc x ys) (\<lambda>r. Inr (y # r))
       else Inr (x # y # ys))"

fun sort_results :: "(metrics \<times> string) list \<Rightarrow> error + (metrics \<times> string) list" where
  "sort_results [] = Inr []"
| "sort_results (x # xs) = ebind (sort_results xs) (insert_desc x)"

fun scan_loop ::
  "env \<Rightarrow> pyval list \<Rightarrow> (metrics \<times> string) list \<Rightarrow> error + (metrics \<times> string) list" where
  "scan_loop E [] results = Inr results"
| "scan_loop E (item # rest) results =
     ebind (summarize_pool E item) (\<lambda>(text, m).
     ebind (looks_like_memecoin m) (\<lambda>keep.
       scan_loop E rest (if keep then results @ [(m, text)] else results)))"

definition scan_output :: "(metrics \<times> string) list \<Rightarrow> string list" where
  "scan_output results =
     (let ts = take 10 (map snd results)
      in if ts = [] then [''(no candidates found)''] else ts)"

text \<open>\<open>scan_geckoterminal\<close> from the decoded response on: the fetch is outside the model.\<close>

definition scan_geckoterminal :: "env \<Rightarrow> pyval \<Rightarrow> error + string list" where
  "scan_geckoterminal E data =
     ebind (py_get data ''data'' (PList [])) (\<lambda>pools.
     ebind (py_iter pools) (\<lambda>items.
     ebind (scan_loop E items []) (\<lambda>results.
     ebind (sort_results results) (\<lambda>sorted_results.
       Inr (scan_output sorted_results)))))"

section \<open>The search\<close>

definition in_target_chain :: "pyval \<Rightarrow> bool" where
  "in_target_chain c = (c = PStr ''pulsechain'' \<or> c = PStr ''pulse'')"

text \<open>The line the f-string of the loop body writes.\<close>

definition search_text ::
  "env \<Rightarrow> pyval \<Rightarrow> pyval \<Rightarrow> pyfloat \<Rightarrow> pyfloat \<Rightarrow> pyval \<Rightarrow> pyval \<Rightarrow> string" where
  "search_text E base quote fprice vliq tx url =
     bullet @ '' '' @ py_str E base @ ''/'' @ py_str E quote
     @ ''  $'' @ format_float E '',.8f'' fprice
     @ ''  Liq $'' @ format_float E '',.0f'' vliq
     @ ''  tx/hr '' @ py_str E tx @ nl @ ''  '' @ py_str E url"

text \<open>One pass of the loop body after the chain test: the line appended for a pair.\<close>

definition search_line :: "env \<Rightarrow> pyval \<Rightarrow> error + string" where
  "search_line E p =
     ebind (ebind (py_index p ''baseToken'') (\<lambda>t. py_index t ''symbol'')) (\<lambda>base.
     ebind (ebind (py_index p ''quoteToken'') (\<lambda>t. py_index t ''symbol'')) (\<lambda>quote.
     ebind (py_get p ''url'' PNone) (\<lambda>url.
     ebind (ebind (ebind (py_get p ''liquidity'' (PDict [])) (\<lambda>l. py_get l ''usd'' PNone))
              (usd E)) (\<lambda>vliq.
     ebind (ebind (ebind (py_get p ''txns'' (PDict [])) (\<lambda>t. py_get t ''h1'' (PDict [])))
              (\<lambda>h. py_get h ''buys'' (PInt 0))) (\<lambda>buys.
     ebind (ebind (ebind (py_get p ''txns'' (PDict [])) (\<lambda>t. py_get t ''h1'' (PDict [])))
              (\<lambda>h. py_get h ''sells'' (PInt 0))) (\<lambda>sells.
     ebind (py_add buys sells) (\<lambda>tx.
     ebind (py_get p ''priceUsd'' PNone) (\<lambda>price.
     ebind (py_float (str_to_float E) price) (\<lambda>fprice.
       Inr (search_text E base quote fprice vliq tx url))))))))))"

fun search_loop :: "env \<Rightarrow> pyval list \<Rightarrow> string list \<Rightarrow> error + string list" where
  "search_loop E [] lines = Inr lines"
| "search_loop E (p # rest) lines =
     ebind (py_get p ''chainId'' PNone) (\<lambda>c.
       if \<not> in_target_chain c then search_loop E rest lines
       else ebind (search_line E p) (\<lambda>line. search_loop E rest (lines @ [line])))"

text \<open>\<open>search\<close> from the decoded response on; the result is the text of the reply, an error
  is what the handler reports as one.\<close>

definition search :: "env \<Rightarrow> pyval \<Rightarrow> error + string" where
  "search E js =
     ebind (py_get js ''pairs'' (PList [])) (\<lambda>pairs.
     ebind (py_iter pairs) (\<lambda>items.
     ebind (search_loop E items []) (\<lambda>lines.
       Inr (if lines = [] then ''(no PulseChain results found)''
            else join (nl @ nl) (take 10 lines)))))"

section \<open>Notions used in the statements\<close>





text \<open>The instant a parsed timestamp stands for when one without an offset is read as
  UTC, in microseconds.\<close>

definition instant_as_utc :: "datetime \<Rightarrow> int" where
  "instant_as_utc dt =
     wall_us dt - (case tzinfo dt of None \<Rightarrow> 0 | Some off \<Rightarrow> off * 1000000)"



















text \<open>A sample environment for evaluating the program at concrete inputs: it reads three
  numerals and three timestamps of 2025-01-01 (measured from midnight, with the clock at
  03:00), prints a string as itself and everything else as nothing.\<close>

definition demo_strtod :: "string \<Rightarrow> pyfloat option" where
  "demo_strtod s =
     (if s = ''5000'' then Some (Fin 5000)
      else if s = ''1.5'' then Some (Fin (3 / 2))
      else if s = ''-5'' then Some (Fin (- 5))
      else None)"

definition demo_isoparse :: "string \<Rightarrow> datetime option" where
  "demo_isoparse s =
     (if s = ''2025-01-01T01:00:00'' then Some \<lparr>wall_us = 3600000000, tzinfo = None\<rparr>
      else if s = ''2025-01-01T01:00:00+00:00''
        then Some \<lparr>wall_us = 3600000000, tzinfo = Some 0\<rparr>
      else if s = ''2025-01-01T05:00:00+00:00''
        then Some \<lparr>wall_us = 18000000000, tzinfo = Some 0\<rparr>
      else None)"

definition demo_env :: env where
  "demo_env = \<lparr>str_to_float = demo_strtod, isoparse = demo_isoparse,
     now_us = 10800000000, format_float = (\<lambda>spec f. []),
     py_str = (\<lambda>v. case v of PStr s \<Rightarrow> s | _ \<Rightarrow> [])\<rparr>"



text \<open>A sample pair of the search response on the given chain, with further fields.\<close>

definition demo_pair :: "string \<Rightarrow> (string \<times> pyval) list \<Rightarrow> pyval" where
  "demo_pair chain extra =
     PDict ([(''chainId'', PStr chain),
             (''baseToken'', PDict [(''symbol'', PStr ''DOGE'')]),
             (''quoteToken'', PDict [(''symbol'', PStr ''WPLS'')]),
             (''url'', PStr ''https://dex.example/1'')] @ extra)"

section \<open>The numeric normaliser\<close>

lemma ebind_Inr: "ebind (Inr v) f = f v"
  by (simp add: ebind_def)

lemma ebind_Inl: "ebind (Inl e) f = Inl e"
  by (simp add: ebind_def)

lemma bit_length_bound: "a < 2 ^ k \<Longrightarrow> bit_length a \<le> k"
proof (induction k arbitrary: a)
  case 0
  then show ?case by (simp add: bit_length.simps)
next
  case (Suc k)
  then have "a div 2 < 2 ^ k" by simp
  from Suc.IH [OF this] show ?case
    by (subst bit_length.simps) simp
qed

lemma bit_length_exact: "2 ^ k \<le> a \<Longrightarrow> a < 2 ^ Suc k \<Longrightarrow> bit_length a = Suc k"
proof (induction k arbitrary: a)
  case 0
  then have "a = 1" by simp
  then show ?case by (simp add: bit_length.simps)
next
  case (Suc k)
  then have "2 ^ k \<le> a div 2" "a div 2 < 2 ^ Suc k" "a \<noteq> 0"
    by auto
  with Suc.IH [of "a div 2"] show ?case
    by (subst bit_length.simps) simp
qed

lemma bit_length_power: "bit_length (2 ^ k) = Suc k"
  by (rule bit_length_exact) simp_all

lemma nearest_double_small: "bit_length a \<le> 53 \<Longrightarrow> nearest_double a = a"
  by (simp add: nearest_double_def round_half_even_def)

lemma nearest_double_power: "nearest_double (2 ^ k) = 2 ^ k"
proof (cases "k < 53")
  case True
  then show ?thesis
    by (simp add: nearest_double_small bit_length_power)
next
  case False
  then have k: "k = 52 + (k - 52)" by simp
  have p: "(2::nat) ^ k = 2 ^ 52 * 2 ^ (k - 52)"
    by (subst k) (simp only: power_add)
  have sh: "bit_length (2 ^ k) - 53 = k - 52"
    using False by (simp add: bit_length_power)
  have q: "(2::nat) ^ k div 2 ^ (k - 52) = 2 ^ 52"
    by (subst p) simp
  have r: "(2::nat) ^ k mod 2 ^ (k - 52) = 0"
    by (subst p) simp
  have "round_half_even (2 ^ k) (k - 52) = 2 ^ 52 * 2 ^ (k - 52)"
    unfolding round_half_even_def q r by (simp add: Let_def)
  then show ?thesis
    by (simp only: nearest_double_def sh p [symmetric])
qed

text \<open>Integers below \<open>2 ^ 53\<close> in magnitude convert exactly; a power of two converts exactly
  or overflows; \<open>2 ^ 53 + 1\<close> lies halfway between two floats and goes to the even one.\<close>

lemma float_of_int_small: "\<bar>n\<bar> < 2 ^ 53 \<Longrightarrow> float_of_int n = Inr (Fin (of_int n))"
proof -
  assume a: "\<bar>n\<bar> < 2 ^ 53"
  then have "nat \<bar>n\<bar> < 2 ^ 53"
    by (simp add: nat_less_iff)
  then have b: "bit_length (nat \<bar>n\<bar>) \<le> 53"
    by (rule bit_length_bound)
  have d: "sgn n * \<bar>n\<bar> = n"
    by (simp add: mult_sgn_abs)
  from b d show ?thesis
    by (simp add: float_of_int_def nearest_double_small Let_def)
qed

lemma float_of_int_power:
  "float_of_int (2 ^ k) = (if 1024 \<le> k then Inl OverflowError else Inr (Fin (2 ^ k)))"
  by (simp add: float_of_int_def Let_def nat_power_eq nearest_double_power bit_length_power)

lemma float_of_int_tie: "float_of_int 9007199254740993 = Inr (Fin 9007199254740992)"
proof -
  have "bit_length 9007199254740993 = Suc 53"
    by (rule bit_length_exact) simp_all
  then have "nearest_double 9007199254740993 = 9007199254740992"
    by (simp add: nearest_double_def round_half_even_def)
  moreover have "bit_length 9007199254740992 = Suc 53"
    by (rule bit_length_exact) simp_all
  ultimately show ?thesis
    by (simp add: float_of_int_def)
qed

lemma usd_falsy: "\<not> truthy x \<Longrightarrow> usd E x = Inr (Fin 0)"
  by (simp add: usd_def usd_body_def)

lemma usd_truthy:
  "truthy x \<Longrightarrow> usd E x = (case py_float (str_to_float E) x of Inl e \<Rightarrow> Inr (Fin 0) | Inr v \<Rightarrow> Inr v)"
  by (simp add: usd_def usd_body_def)

lemma usd_returns: "\<exists>v. usd E x = Inr v"
  by (simp add: usd_def split: sum.split)

lemma usd_int: "usd E (PInt n) = (case float_of_int n of Inl e \<Rightarrow> Inr (Fin 0) | Inr v \<Rightarrow> Inr v)"
proof (cases "n = 0")
  case True
  then show ?thesis
    by (simp add: usd_falsy float_of_int_small)
next
  case False
  then show ?thesis
    by (simp add: usd_truthy)
qed

text \<open>
  The JSON value \<open>true\<close> is no number, yet \<open>usd\<close> returns 1.0 for it; the integer \<open>2 ^ 1024\<close>
  is a number, yet \<open>usd\<close> returns 0.0 for it, the \<open>OverflowError\<close> of \<open>float\<close> being
  swallowed.
\<close>

theorem usd_counterexample:
  "usd demo_env (PBool True) = Inr (Fin 1) \<and> usd demo_env (PInt (2 ^ 1024)) = Inr (Fin 0)"
proof -
  have "usd demo_env (PBool True) = Inr (Fin 1)"
    by (simp add: usd_def usd_body_def)
  moreover have "float_of_int (2 ^ 1024) = Inl OverflowError"
    by (simp only: float_of_int_power) simp
  then have "usd demo_env (PInt (2 ^ 1024)) = Inr (Fin 0)"
    by (simp only: usd_int sum.case)
  ultimately show ?thesis by (rule conjI)
qed

text \<open>
  C4, amended. \<open>usd\<close> never raises: on every value it returns a float. It returns 0.0 for
  null (which is also what an absent key reads as), for the empty string, for \<open>false\<close>, for
  a string that \<open>float\<close> rejects, for a list or an object, and for an integer too large for
  a float; it returns 1.0 for \<open>true\<close>; and otherwise the parsed value: a float as it is, an
  integer as \<open>float\<close> converts it (exactly below \<open>2 ^ 53\<close> in magnitude, rounded to the
  nearest float beyond, as \<open>2 ^ 53 + 1\<close> to \<open>2 ^ 53\<close>), and a non-empty string as \<open>float\<close>
  reads it.
\<close>

theorem usd_never_raises:
  "(\<exists>v. usd E x = Inr v)
   \<and> usd E PNone = Inr (Fin 0)
   \<and> usd E (PStr []) = Inr (Fin 0)
   \<and> (str_to_float E s = None \<longrightarrow> usd E (PStr s) = Inr (Fin 0))
   \<and> usd E (PList xs) = Inr (Fin 0)
   \<and> usd E (PDict kvs) = Inr (Fin 0)
   \<and> usd E (PBool b) = Inr (Fin (if b then 1 else 0))
   \<and> usd E (PFloat f) = Inr f
   \<and> (\<bar>n\<bar> < 2 ^ 53 \<longrightarrow> usd E (PInt n) = Inr (Fin (of_int n)))
   \<and> (float_of_int k = Inr w \<longrightarrow> usd E (PInt k) = Inr w)
   \<and> (float_of_int j = Inl e \<longrightarrow> usd E (PInt j) = Inr (Fin 0))
   \<and> usd E (PInt 9007199254740993) = Inr (Fin 9007199254740992)
   \<and> (1024 \<le> i \<longrightarrow> usd E (PInt (2 ^ i)) = Inr (Fin 0))
   \<and> (t \<noteq> [] \<and> str_to_float E t = Some v \<longrightarrow> usd E (PStr t) = Inr v)"
proof -
  have a: "usd E (PFloat f) = Inr f"
    by (cases "f = Fin 0") (simp_all add: usd_def usd_body_def)
  have b: "\<bar>n\<bar> < 2 ^ 53 \<Longrightarrow> usd E (PInt n) = Inr (Fin (of_int n))"
    by (simp add: usd_int float_of_int_small)
  have c: "str_to_float E s = None \<Longrightarrow> usd E (PStr s) = Inr (Fin 0)"
    by (simp add: usd_def usd_body_def)
  have d: "t \<noteq> [] \<Longrightarrow> str_to_float E t = Some v \<Longrightarrow> usd E (PStr t) = Inr v"
    by (simp add: usd_def usd_body_def)
  have e: "usd E (PList xs) = Inr (Fin 0)" "usd E (PDict kvs) = Inr (Fin 0)"
    "usd E PNone = Inr (Fin 0)" "usd E (PStr []) = Inr (Fin 0)"
    "usd E (PBool b) = Inr (Fin (if b then 1 else 0))"
    by (simp_all add: usd_def usd_body_def)
  have g: "float_of_int k = Inr w \<Longrightarrow> usd E (PInt k) = Inr w"
    by (simp add: usd_int)
  have h: "float_of_int j = Inl e \<Longrightarrow> usd E (PInt j) = Inr (Fin 0)"
    by (simp add: usd_int)
  have t: "usd E (PInt 9007199254740993) = Inr (Fin 9007199254740992)"
    by (simp only: usd_int float_of_int_tie sum.case)
  have o: "1024 \<le> i \<Longrightarrow> usd E (PInt (2 ^ i)) = Inr (Fin 0)"
    by (simp only: usd_int float_of_int_power if_True sum.case)
  from a b c d e g h t o usd_returns [of E x] show ?thesis
    by blast
qed

theorem usd_never_raises_witness:
  "str_to_float demo_env ''abc'' = None \<and> usd demo_env (PStr ''abc'') = Inr (Fin 0)
   \<and> \<bar>7\<bar> < (2 ^ 53 :: int) \<and> usd demo_env (PInt 7) = Inr (Fin 7)
   \<and> float_of_int 9007199254740993 = Inr (Fin 9007199254740992)
   \<and> usd demo_env (PInt 9007199254740993) = Inr (Fin 9007199254740992)
   \<and> float_of_int (2 ^ 1024) = Inl OverflowError
   \<and> (1024::nat) \<le> 1024
   \<and> usd demo_env (PInt (2 ^ 1024)) = Inr (Fin 0)
   \<and> ''1.5'' \<noteq> [] \<and> str_to_float demo_env ''1.5'' = Some (Fin (3 / 2))
   \<and> usd demo_env (PStr ''1.5'') = Inr (Fin (3 / 2))"
proof -
  have p: "float_of_int (2 ^ 1024) = Inl OverflowError"
    by (simp only: float_of_int_power) simp
  have s1: "str_to_float demo_env ''abc'' = None"
    "str_to_float demo_env ''1.5'' = Some (Fin (3 / 2))"
    by (simp_all add: demo_env_def demo_strtod_def)
  have s7: "\<bar>7\<bar> < (2 ^ 53 :: int)"
    by simp
  note u = usd_never_raises [of demo_env PNone "''abc''" "[]" "[]" True NaN 7
      9007199254740993 "Fin 9007199254740992" "2 ^ 1024" OverflowError 1024 "''1.5''"
      "Fin (3 / 2)"]
  from u s7 have w7: "usd demo_env (PInt 7) = Inr (Fin 7)"
    by simp
  from u s1 have ws: "usd demo_env (PStr ''abc'') = Inr (Fin 0)"
    "usd demo_env (PStr ''1.5'') = Inr (Fin (3 / 2))"
    by simp_all
  from u p float_of_int_tie have wi: "usd demo_env (PInt 9007199254740993) = Inr (Fin 9007199254740992)"
    "usd demo_env (PInt (2 ^ 1024)) = Inr (Fin 0)"
    by blast+
  from s1 s7 p float_of_int_tie w7 ws wi show ?thesis
    by simp
qed

section \<open>The eligibility filter\<close>

lemma float_le_PosInf_Fin: "float_le PosInf (Fin q) = False"
  by (simp add: float_le_def float_eq_def)

text \<open>
  C1. On metrics whose transaction count is a number, \<open>looks_like_memecoin\<close> returns true
  exactly when all four threshold comparisons hold: liquidity at least 3000, hourly
  transactions at least 20, FDV at most 20,000,000, age at most 48 hours. So making any one
  comparison false gives false, whatever the other three are.
\<close>

theorem looks_like_memecoin_conjunction:
  assumes "num_of (txs m) = Some t"
  shows "looks_like_memecoin m =
           Inr (float_le (Fin 3000) (liq m) \<and> float_le (Fin 20) t
                \<and> float_le (fdv m) (Fin 20000000) \<and> float_le (age m) (Fin 48))
         \<and> (\<not> float_le (Fin 3000) (liq m) \<or> \<not> float_le (Fin 20) t
              \<or> \<not> float_le (fdv m) (Fin 20000000) \<or> \<not> float_le (age m) (Fin 48)
            \<longrightarrow> looks_like_memecoin m = Inr False)"
  using assms
  by (simp add: looks_like_memecoin_def py_ge_int_def ebind_def MIN_LIQ_USD_def
      MIN_1H_TXNS_def MAX_FDV_USD_def MAX_POOL_AGE_HOURS_def)

theorem looks_like_memecoin_conjunction_witness:
  "num_of (txs \<lparr>fdv = Fin 1000000, liq = Fin 5000, txs = PInt 40, age = Fin 2\<rparr>) = Some (Fin 40)
   \<and> looks_like_memecoin \<lparr>fdv = Fin 1000000, liq = Fin 5000, txs = PInt 40, age = Fin 2\<rparr> = Inr True
   \<and> \<not> float_le (Fin 3000) (liq \<lparr>fdv = Fin 1000000, liq = Fin 1000, txs = PInt 40, age = Fin 2\<rparr>)
   \<and> looks_like_memecoin \<lparr>fdv = Fin 1000000, liq = Fin 1000, txs = PInt 40, age = Fin 2\<rparr> = Inr False"
  using looks_like_memecoin_conjunction
          [of "\<lparr>fdv = Fin 1000000, liq = Fin 5000, txs = PInt 40, age = Fin 2\<rparr>" "Fin 40"]
        looks_like_memecoin_conjunction
          [of "\<lparr>fdv = Fin 1000000, liq = Fin 1000, txs = PInt 40, age = Fin 2\<rparr>" "Fin 40"]
  by (simp add: float_le_def float_eq_def)

section \<open>The age calculator\<close>


lemma aware_sub_assume_utc: "aware_sub now (assume_utc dt) = Inr (now - instant_as_utc dt)"
  by (cases "tzinfo dt") (simp_all add: aware_sub_def assume_utc_def instant_as_utc_def)

lemma hours_since_parsed:
  "isoparse E s = Some dt \<Longrightarrow>
     hours_since E (PStr s) = Inr (hours_of_us (now_us E - instant_as_utc dt))"
  by (simp add: hours_since_def aware_sub_assume_utc ebind_Inr)

lemma hours_of_us_eq: "hours_of_us d = Fin (of_int d / 3600000000)"
  by (simp add: hours_of_us_def)

lemma stale_never_eligible: "age m = PosInf \<Longrightarrow> looks_like_memecoin m \<noteq> Inr True"
  by (auto simp: looks_like_memecoin_def ebind_def float_le_PosInf_Fin split: sum.splits if_splits)

text \<open>
  A creation time after the clock reading gives a negative age: with the clock at 03:00, a
  pool stamped 05:00 is \<open>-2\<close> hours old.
\<close>

theorem hours_since_counterexample:
  "hours_since demo_env (PStr ''2025-01-01T05:00:00+00:00'') = Inr (Fin (- 2))"
  by (simp add: hours_since_def demo_env_def demo_isoparse_def hours_of_us_def
      assume_utc_def aware_sub_def ebind_def)

text \<open>
  C5, amended. \<open>hours_since\<close> always returns, and what it returns is a finite number of
  hours or positive infinity. It is positive infinity for null, for every value that is not
  a string and for every string \<open>isoparse\<close> rejects; for a parsed timestamp it is the clock
  reading minus the instant, in hours, which is nonnegative exactly when the instant is not
  after the clock reading. Metrics with an infinite age are never eligible.
\<close>

theorem hours_since_value:
  "(\<exists>v. hours_since E x = Inr v \<and> (v = PosInf \<or> (\<exists>q. v = Fin q)))
   \<and> hours_since E PNone = Inr PosInf
   \<and> hours_since E (PBool b) = Inr PosInf
   \<and> hours_since E (PInt n) = Inr PosInf
   \<and> hours_since E (PFloat f) = Inr PosInf
   \<and> hours_since E (PList xs) = Inr PosInf
   \<and> hours_since E (PDict kvs) = Inr PosInf
   \<and> (isoparse E s = None \<longrightarrow> hours_since E (PStr s) = Inr PosInf)
   \<and> (isoparse E t = Some dt \<longrightarrow>
        hours_since E (PStr t)
          = Inr (Fin (of_int (now_us E - instant_as_utc dt) / 3600000000))
        \<and> (0 \<le> (of_int (now_us E - instant_as_utc dt) / 3600000000 :: rat)
             \<longleftrightarrow> instant_as_utc dt \<le> now_us E))
   \<and> (age m = PosInf \<longrightarrow> looks_like_memecoin m \<noteq> Inr True)"
proof -
  have a: "\<exists>v. hours_since E x = Inr v \<and> (v = PosInf \<or> (\<exists>q. v = Fin q))"
  proof (cases x)
    case (PStr u)
    show ?thesis
    proof (cases "isoparse E u")
      case None
      with PStr show ?thesis by (simp add: hours_since_def)
    next
      case (Some du)
      with PStr have "hours_since E x = Inr (hours_of_us (now_us E - instant_as_utc du))"
        by (simp add: hours_since_parsed)
      then show ?thesis unfolding hours_of_us_def by blast
    qed
  qed (simp_all add: hours_since_def)
  have b: "isoparse E s = None \<Longrightarrow> hours_since E (PStr s) = Inr PosInf"
    by (simp add: hours_since_def)
  have c: "isoparse E t = Some dt \<Longrightarrow>
        hours_since E (PStr t)
          = Inr (Fin (of_int (now_us E - instant_as_utc dt) / 3600000000))"
    by (simp only: hours_since_parsed hours_of_us_eq)
  have d: "(0 \<le> (of_int (now_us E - instant_as_utc dt) / 3600000000 :: rat))
             \<longleftrightarrow> instant_as_utc dt \<le> now_us E"
    by (simp add: zero_le_divide_iff)
  have e: "hours_since E PNone = Inr PosInf" "hours_since E (PBool b) = Inr PosInf"
    "hours_since E (PInt n) = Inr PosInf" "hours_since E (PFloat f) = Inr PosInf"
    "hours_since E (PList xs) = Inr PosInf" "hours_since E (PDict kvs) = Inr PosInf"
    by (simp_all add: hours_since_def)
  from a b c d e stale_never_eligible [of m] show ?thesis
    by blast
qed

theorem hours_since_value_witness:
  "isoparse demo_env ''yesterday'' = None
   \<and> hours_since demo_env (PStr ''yesterday'') = Inr PosInf
   \<and> isoparse demo_env ''2025-01-01T01:00:00+00:00''
       = Some \<lparr>wall_us = 3600000000, tzinfo = Some 0\<rparr>
   \<and> hours_since demo_env (PStr ''2025-01-01T01:00:00+00:00'') = Inr (Fin 2)
   \<and> age \<lparr>fdv = Fin 0, liq = Fin 5000, txs = PInt 40, age = PosInf\<rparr> = PosInf
   \<and> looks_like_memecoin \<lparr>fdv = Fin 0, liq = Fin 5000, txs = PInt 40, age = PosInf\<rparr> \<noteq> Inr True"
  using hours_since_value [of demo_env PNone True 0 NaN "[]" "[]" "''yesterday''"
      "''2025-01-01T01:00:00+00:00''" "\<lparr>wall_us = 3600000000, tzinfo = Some 0\<rparr>"
      "\<lparr>fdv = Fin 0, liq = Fin 5000, txs = PInt 40, age = PosInf\<rparr>"]
  by (simp add: demo_env_def demo_isoparse_def instant_as_utc_def)

text \<open>
  C10. When \<open>isoparse\<close> reads one string as a naive datetime and another as the same
  wall-clock reading with offset zero, \<open>hours_since\<close> gives both the same age at the same
  clock reading: the clock reading minus the wall-clock reading, in hours. The naive value
  itself cannot be subtracted from the clock reading, so the age comes from the step that
  sets its zone to UTC.
\<close>

theorem hours_since_naive_is_utc:
  assumes "isoparse E s = Some \<lparr>wall_us = w, tzinfo = None\<rparr>"
      and "isoparse E t = Some \<lparr>wall_us = w, tzinfo = Some 0\<rparr>"
  shows "hours_since E (PStr s) = hours_since E (PStr t)
         \<and> hours_since E (PStr s) = Inr (Fin (of_int (now_us E - w) / 3600000000))
         \<and> aware_sub (now_us E) \<lparr>wall_us = w, tzinfo = None\<rparr> = Inl TypeError
         \<and> assume_utc \<lparr>wall_us = w, tzinfo = None\<rparr> = \<lparr>wall_us = w, tzinfo = Some 0\<rparr>"
proof -
  have a: "hours_since E (PStr s) = Inr (Fin (of_int (now_us E - w) / 3600000000))"
    by (simp only: hours_since_parsed [OF assms(1)] hours_of_us_eq)
      (simp add: instant_as_utc_def)
  have b: "hours_since E (PStr t) = Inr (Fin (of_int (now_us E - w) / 3600000000))"
    by (simp only: hours_since_parsed [OF assms(2)] hours_of_us_eq)
      (simp add: instant_as_utc_def)
  have c: "aware_sub (now_us E) \<lparr>wall_us = w, tzinfo = None\<rparr> = Inl TypeError"
    by (simp add: aware_sub_def)
  have d: "assume_utc \<lparr>wall_us = w, tzinfo = None\<rparr> = \<lparr>wall_us = w, tzinfo = Some 0\<rparr>"
    by (simp add: assume_utc_def)
  from a b c d show ?thesis by simp
qed

theorem hours_since_naive_is_utc_witness:
  "isoparse demo_env ''2025-01-01T01:00:00'' = Some \<lparr>wall_us = 3600000000, tzinfo = None\<rparr>
   \<and> isoparse demo_env ''2025-01-01T01:00:00+00:00''
       = Some \<lparr>wall_us = 3600000000, tzinfo = Some 0\<rparr>
   \<and> hours_since demo_env (PStr ''2025-01-01T01:00:00'')
       = hours_since demo_env (PStr ''2025-01-01T01:00:00+00:00'')
   \<and> hours_since demo_env (PStr ''2025-01-01T01:00:00'') = Inr (Fin 2)"
proof -
  have i: "isoparse demo_env ''2025-01-01T01:00:00''
             = Some \<lparr>wall_us = 3600000000, tzinfo = None\<rparr>"
    "isoparse demo_env ''2025-01-01T01:00:00+00:00''
       = Some \<lparr>wall_us = 3600000000, tzinfo = Some 0\<rparr>"
    by (simp_all add: demo_env_def demo_isoparse_def)
  have n: "now_us demo_env = 10800000000"
    by (simp add: demo_env_def)
  note h = hours_since_naive_is_utc [OF i]
  from h have e: "hours_since demo_env (PStr ''2025-01-01T01:00:00'')
          = hours_since demo_env (PStr ''2025-01-01T01:00:00+00:00'')"
    by blast
  from h [THEN conjunct2, THEN conjunct1]
  have v: "hours_since demo_env (PStr ''2025-01-01T01:00:00'') = Inr (Fin 2)"
    by (simp add: n)
  from i e v show ?thesis by blast
qed

section \<open>The pool summariser\<close>









section \<open>Sorting and the scan\<close>



































text \<open>
  A response whose \<open>data\<close> field is null makes the scan raise: \<open>None\<close> does not iterate.
\<close>

theorem scan_envelope_counterexample:
  "scan_geckoterminal demo_env (PDict [(''data'', PNone)]) = Inl TypeError"
  by (simp add: scan_geckoterminal_def ebind_def)

text \<open>
  C9, amended. When the response object has no \<open>data\<close> field, or has the empty list
  there, the scan returns the placeholder sequence and does not raise.
\<close>

theorem scan_absent_list:
  "(map_of kvs ''data'' = None \<longrightarrow>
      scan_geckoterminal E (PDict kvs) = Inr [''(no candidates found)''])
   \<and> (map_of kvs' ''data'' = Some (PList []) \<longrightarrow>
      scan_geckoterminal E (PDict kvs') = Inr [''(no candidates found)''])"
  by (simp add: scan_geckoterminal_def ebind_def scan_output_def)

theorem scan_absent_list_witness:
  "map_of [(''meta'', PNone)] ''data'' = None
   \<and> scan_geckoterminal demo_env (PDict [(''meta'', PNone)]) = Inr [''(no candidates found)'']
   \<and> map_of [(''data'', PList [])] ''data'' = Some (PList [])
   \<and> scan_geckoterminal demo_env (PDict [(''data'', PList [])]) = Inr [''(no candidates found)'']"
  using scan_absent_list [of "[(''meta'', PNone)]" demo_env "[(''data'', PList [])]"]
  by simp

section \<open>The search path\<close>

















text \<open>
  C7. A pair on the target chain that lacks \<open>priceUsd\<close> makes the search raise: the price
  goes through \<open>float\<close>, not through \<open>usd\<close>, which maps the same missing value to 0.0.
\<close>

theorem search_missing_price_raises:
  "search demo_env (PDict [(''pairs'', PList [demo_pair ''pulsechain'' []])]) = Inl TypeError
   \<and> usd demo_env PNone = Inr (Fin 0)"
  by (simp add: search_def search_line_def demo_pair_def ebind_def usd_def usd_body_def
      py_add_def in_target_chain_def)

end
